theory Spec2Isabelle
  imports Main
begin

section \<open>Data model\<close>

text \<open>
  A row is Python's list of field strings, a file name is a string. The exceptions the
  modelled code can raise are values of \<open>error\<close>; log records keep their level and a
  structured message instead of the rendered f-string.
\<close>

type_synonym row = "string list"
type_synonym fname = string

datatype error =
  NoDataFile | RuntimeError | TypeError | IndexError | KeyError | ValueError
  | FileNotFoundError | CsvError

datatype level = DEBUG | INFO | WARNING

datatype message =
  Datafile_not_found fname
  | Row_skipped row
  | No_column row int
  | Error_opening fname
  | Splitting fname
  | No_data_links string string
  | No_data_user_languages

text \<open>
  A generator is the finite sequence of what it does, in order (a yielded item or a log
  record), followed by how it ends: \<open>None\<close> for normal exhaustion, \<open>Some e\<close> for an
  exception raised out of the generator body.
\<close>

datatype 'a event = Yield 'a | Logs level message

datatype 'a gen = Gen (events: "'a event list") (raised: "error option")

fun yielded_of :: "'a event list \<Rightarrow> 'a list" where
  "yielded_of [] = []"
| "yielded_of (Yield x # es) = x # yielded_of es"
| "yielded_of (Logs l m # es) = yielded_of es"

fun logged_of :: "'a event list \<Rightarrow> (level \<times> message) list" where
  "logged_of [] = []"
| "logged_of (Yield x # es) = logged_of es"
| "logged_of (Logs l m # es) = (l, m) # logged_of es"

definition yielded :: "'a gen \<Rightarrow> 'a list" where
  "yielded g = yielded_of (events g)"

definition logged :: "'a gen \<Rightarrow> (level \<times> message) list" where
  "logged g = logged_of (events g)"

definition emit :: "'a event \<Rightarrow> 'a gen \<Rightarrow> 'a gen" where
  "emit e g = Gen (e # events g) (raised g)"

section \<open>Python list and string primitives\<close>

text \<open>
  Slice bounds are clipped to the list, negative bounds count from the end; item
  assignment raises IndexError out of range; \<open>del xs[i:j]\<close> removes the slice.
\<close>

definition slice_bound :: "nat \<Rightarrow> int \<Rightarrow> nat" where
  "slice_bound n i = (if i < 0 then nat (max 0 (int n + i)) else min (nat i) n)"

definition py_slice :: "'a list \<Rightarrow> int \<Rightarrow> int \<Rightarrow> 'a list" where
  "py_slice xs i j =
     (let a = slice_bound (length xs) i; b = slice_bound (length xs) j
      in take (b - a) (drop a xs))"

definition py_setitem :: "'a list \<Rightarrow> int \<Rightarrow> 'a \<Rightarrow> error + 'a list" where
  "py_setitem xs i v =
     (let n = int (length xs); k = (if i < 0 then n + i else i)
      in if 0 \<le> k \<and> k < n then Inr (xs[nat k := v]) else Inl IndexError)"

definition py_getitem :: "'a list \<Rightarrow> int \<Rightarrow> error + 'a" where
  "py_getitem xs i =
     (let n = int (length xs); k = (if i < 0 then n + i else i)
      in if 0 \<le> k \<and> k < n then Inr (xs ! nat k) else Inl IndexError)"

definition py_del_slice :: "'a list \<Rightarrow> int \<Rightarrow> int \<Rightarrow> 'a list" where
  "py_del_slice xs i j =
     (let a = slice_bound (length xs) i; b = slice_bound (length xs) j
      in if a < b then take a xs @ drop b xs else xs)"

text \<open>\<open>delimiter.join(fields)\<close> for a one-character delimiter.\<close>

fun join :: "char \<Rightarrow> string list \<Rightarrow> string" where
  "join d [] = []"
| "join d [x] = x"
| "join d (x # y # ys) = x @ d # join d (y # ys)"

text \<open>
  \<open>csv.reader\<close> with \<open>quoting=csv.QUOTE_NONE\<close> gives quotes no meaning: a line is cut
  at every delimiter, and a blank line is the empty row. The reader raises \<open>_csv.Error\<close>
  on a carriage return or line feed that is followed by anything but further line
  ends (a new-line character inside an unquoted field), and on a field longer than
  \<open>csv.field_size_limit()\<close>, 131072 by default. A line feed or carriage return is
  read as a line end before it is compared with the delimiter.
\<close>

fun cons_hd :: "char \<Rightarrow> string list \<Rightarrow> string list" where
  "cons_hd c [] = [[c]]"
| "cons_hd c (f # fs) = (c # f) # fs"

fun split_on :: "char \<Rightarrow> string \<Rightarrow> string list" where
  "split_on d [] = [[]]"
| "split_on d (c # cs) = (if c = d then [] # split_on d cs else cons_hd c (split_on d cs))"

definition field_size_limit :: nat where
  "field_size_limit = 131072"

definition is_newline :: "char \<Rightarrow> bool" where
  "is_newline c = (c = CHR 0x0A \<or> c = CHR 0x0D)"

definition parse_row :: "char \<Rightarrow> string \<Rightarrow> error + row" where
  "parse_row d line =
     (let body = rev (dropWhile is_newline (rev line)) in
      if list_ex is_newline body then Inl CsvError
      else
        (let row = (if body = [] then [] else split_on d body) in
         if list_ex (\<lambda>field. field_size_limit < length field) row then Inl CsvError
         else Inr row))"

section \<open>The reader: \<open>unsplit_field\<close> and \<open>custom_reader\<close>\<close>

definition unsplit_field :: "row \<Rightarrow> nat \<Rightarrow> char \<Rightarrow> int \<Rightarrow> error + row" where
  "unsplit_field row nb_cols delimiter index_field0 =
     (let index_field = (if index_field0 < 0 then int nb_cols + index_field0 else index_field0);
          nb_extra = int (length row) - int nb_cols
      in if nb_extra > 0 then
           (let fields_to_join = py_slice row index_field (index_field + nb_extra + 1)
            in case py_setitem row index_field (join delimiter fields_to_join) of
                 Inl e \<Rightarrow> Inl e
               | Inr row' \<Rightarrow> Inr (py_del_slice row' (index_field + 1) (index_field + nb_extra + 1)))
         else Inr row)"

text \<open>\<open>real_row[-1] += s\<close> on a non-empty list.\<close>

definition append_last :: "row \<Rightarrow> string \<Rightarrow> row" where
  "append_last real_row s = butlast real_row @ [last real_row @ s]"

text \<open>
  \<open>if text_col:\<close> is Python truthiness: \<open>None\<close> and \<open>0\<close> both skip the regrouping.
\<close>

definition regroup :: "int option \<Rightarrow> row \<Rightarrow> nat \<Rightarrow> char \<Rightarrow> error + row" where
  "regroup text_col row nb_cols delimiter =
     (case text_col of
        None \<Rightarrow> Inr row
      | Some tc \<Rightarrow> if tc \<noteq> 0 then unsplit_field row nb_cols delimiter tc else Inr row)"

fun reader_loop :: "nat \<Rightarrow> char \<Rightarrow> int option \<Rightarrow> row \<Rightarrow> string list \<Rightarrow> row gen" where
  "reader_loop nb_cols delimiter text_col real_row [] =
     (if real_row \<noteq> [] then Gen [Yield real_row] None else Gen [] None)"
| "reader_loop nb_cols delimiter text_col real_row (line # rest) =
     (case parse_row delimiter line of
        Inl e \<Rightarrow> Gen [] (Some e)
      | Inr row0 \<Rightarrow>
     (case regroup text_col row0 nb_cols delimiter of
        Inl e \<Rightarrow> Gen [] (Some e)
      | Inr row \<Rightarrow>
          if length row = nb_cols then
            (if real_row \<noteq> []
             then emit (Yield real_row) (reader_loop nb_cols delimiter text_col row rest)
             else reader_loop nb_cols delimiter text_col row rest)
          else if length row = 1 \<and> real_row \<noteq> [] then
            reader_loop nb_cols delimiter text_col
              (append_last real_row ('' '' @ hd row)) rest
          else if row = [] \<and> real_row \<noteq> [] then
            reader_loop nb_cols delimiter text_col (append_last real_row '' '') rest
          else
            emit (Logs DEBUG (Row_skipped row))
              (reader_loop nb_cols delimiter text_col real_row rest)))"

text \<open>
  \<open>next(reader)\<close> on an input without lines raises StopIteration inside the generator
  body, which Python (PEP 479, the default since 3.7) turns into RuntimeError. After
  \<open>seek(0)\<close> the loop reads every line again, the first one included. The lines are
  parsed one at a time, as the loop asks for them.
\<close>

definition custom_reader :: "string list \<Rightarrow> char \<Rightarrow> int option \<Rightarrow> row gen" where
  "custom_reader string_io delimiter text_col =
     (case string_io of
        [] \<Rightarrow> Gen [] (Some RuntimeError)
      | line # _ \<Rightarrow>
          (case parse_row delimiter line of
             Inl e \<Rightarrow> Gen [] (Some e)
           | Inr first \<Rightarrow> reader_loop (length first) delimiter text_col [] string_io))"

section \<open>\<open>DataFile\<close>\<close>

record datafile =
  path :: fname
  stem :: string
  dm :: char
  tc :: "int option"

text \<open>
  \<open>DataFile.__iter__\<close>: the source is \<open>None\<close> when \<open>path.is_file()\<close> is false, else
  its physical lines.
\<close>

definition DataFile_iter :: "datafile \<Rightarrow> string list option \<Rightarrow> row gen" where
  "DataFile_iter self source =
     (case source of
        None \<Rightarrow> Gen [Logs DEBUG (Datafile_not_found (path self))] (Some NoDataFile)
      | Some f \<Rightarrow> custom_reader f (dm self) (tc self))"

section \<open>Table iterators: \<open>Links\<close> and \<open>UserLanguages\<close>\<close>

datatype link = Link (src_id: string) (tgt_id: string)

definition Links_filename :: "string \<Rightarrow> string \<Rightarrow> fname" where
  "Links_filename src_lg tgt_lg = src_lg @ ''-'' @ tgt_lg @ ''_links.tsv''"

text \<open>
  The body of the \<open>for\<close> loop in \<open>Links.__iter__\<close>: the dict comprehension indexes the
  two field names (IndexError on a third field) and \<open>Link(**row)\<close> needs both keyword
  arguments (TypeError when one is missing). Only \<open>NoDataFile\<close> is caught: it is turned
  into one warning and the iterator ends normally.
\<close>

fun Links_loop :: "string \<Rightarrow> string \<Rightarrow> row event list \<Rightarrow> error option \<Rightarrow> link gen" where
  "Links_loop src_lg tgt_lg [] r =
     (case r of
        Some NoDataFile \<Rightarrow> Gen [Logs WARNING (No_data_links src_lg tgt_lg)] None
      | _ \<Rightarrow> Gen [] r)"
| "Links_loop src_lg tgt_lg (Logs l m # es) r = emit (Logs l m) (Links_loop src_lg tgt_lg es r)"
| "Links_loop src_lg tgt_lg (Yield row # es) r =
     (case row of
        [a, b] \<Rightarrow> emit (Yield (Link a b)) (Links_loop src_lg tgt_lg es r)
      | _ \<Rightarrow> Gen [] (Some (if length row > 2 then IndexError else TypeError)))"

definition Links_iter :: "string \<Rightarrow> string \<Rightarrow> string list option \<Rightarrow> link gen" where
  "Links_iter src_lg tgt_lg source =
     (let g = DataFile_iter
                \<lparr>path = Links_filename src_lg tgt_lg, stem = src_lg @ ''-'' @ tgt_lg @ ''_links'',
                 dm = CHR 0x09, tc = None\<rparr> source
      in Links_loop src_lg tgt_lg (events g) (raised g))"

datatype user_language =
  UserLanguage (lang: string) (skill: string) (username: string) (details: string)

fun UserLanguages_loop :: "row event list \<Rightarrow> error option \<Rightarrow> user_language gen" where
  "UserLanguages_loop [] r =
     (case r of
        Some NoDataFile \<Rightarrow> Gen [Logs WARNING No_data_user_languages] None
      | _ \<Rightarrow> Gen [] r)"
| "UserLanguages_loop (Logs l m # es) r = emit (Logs l m) (UserLanguages_loop es r)"
| "UserLanguages_loop (Yield row # es) r =
     (case row of
        [a, b, c, d] \<Rightarrow> emit (Yield (UserLanguage a b c d)) (UserLanguages_loop es r)
      | _ \<Rightarrow> Gen [] (Some (if length row > 4 then IndexError else TypeError)))"

definition UserLanguages_iter :: "string \<Rightarrow> string list option \<Rightarrow> user_language gen" where
  "UserLanguages_iter lg source =
     (let g = DataFile_iter
                \<lparr>path = lg @ ''_user_languages.tsv'', stem = lg @ ''_user_languages'',
                 dm = CHR 0x09, tc = Some (- 1)\<rparr> source
      in UserLanguages_loop (events g) (raised g))"

section \<open>\<open>Buffer\<close>\<close>

text \<open>
  The state of a \<open>Buffer\<close> together with the output directory it works on. Files are
  named by their name inside \<open>out_dir\<close>; the directory is an association list from
  names to contents, and the content of an output file is the list of rows that
  \<open>csv.writer\<close> has written to it. \<open>data\<close> is the dict \<open>_data\<close>, kept as an association
  list in insertion order, since \<open>clear\<close> walks its keys in that order.
\<close>

record state =
  fps :: "fname set"
  delim :: char
  max_size :: int
  data :: "(fname \<times> row list) list"
  files :: "(fname \<times> row list) list"
  logs :: "(level \<times> message) list"

text \<open>How an attempt to open the in-progress file and write the queue ends.\<close>

datatype io = Succeeds | Open_fails | Write_fails nat

text \<open>\<open>d[k] = v\<close>: an existing key keeps its place, a new key goes last.\<close>

fun dict_set :: "'k \<Rightarrow> 'v \<Rightarrow> ('k \<times> 'v) list \<Rightarrow> ('k \<times> 'v) list" where
  "dict_set k v [] = [(k, v)]"
| "dict_set k v (p # ps) = (if fst p = k then (k, v) # ps else p # dict_set k v ps)"

definition dict_del :: "'k \<Rightarrow> ('k \<times> 'v) list \<Rightarrow> ('k \<times> 'v) list" where
  "dict_del k ps = filter (\<lambda>p. fst p \<noteq> k) ps"

definition Buffer_init ::
  "(fname \<times> row list) list \<Rightarrow> (level \<times> message) list \<Rightarrow> char \<Rightarrow> int \<Rightarrow> state" where
  "Buffer_init dir lg delimiter max_sz =
     \<lparr>fps = set (map fst dir), delim = delimiter, max_size = max_sz, data = [], files = dir, logs = lg\<rparr>"

text \<open>
  \<open>Path(out_dir, out_fname + ".part").stem\<close>: pathlib strips the last suffix, and a
  name that is only \<open>.part\<close> has none.
\<close>

definition part_name :: "fname \<Rightarrow> fname" where
  "part_name out_fname = out_fname @ ''.part''"

definition final_name :: "fname \<Rightarrow> fname" where
  "final_name out_fname = (if out_fname = [] then ''.part'' else out_fname)"

definition file_at :: "state \<Rightarrow> fname \<Rightarrow> row list option" where
  "file_at s fp = map_of (files s) fp"

definition content :: "state \<Rightarrow> fname \<Rightarrow> row list" where
  "content s fp = (case file_at s fp of None \<Rightarrow> [] | Some c \<Rightarrow> c)"

text \<open>
  \<open>Buffer._save\<close>. Opening in append mode creates the file; a write that fails leaves
  the rows written so far. \<open>rename\<close> replaces an existing target (POSIX).
\<close>

definition save :: "io \<Rightarrow> fname \<Rightarrow> bool \<Rightarrow> state \<Rightarrow> error + state" where
  "save outcome out_fname end s =
     (case map_of (data s) out_fname of
        None \<Rightarrow> Inl KeyError
      | Some queue \<Rightarrow>
          (let out_fp = part_name out_fname in
           case outcome of
             Open_fails \<Rightarrow> Inr (s\<lparr>logs := logs s @ [(DEBUG, Error_opening out_fp)]\<rparr>)
           | Write_fails n \<Rightarrow>
               Inr (s\<lparr>files := dict_set out_fp (content s out_fp @ take n queue) (files s),
                      logs := logs s @ [(DEBUG, Error_opening out_fp)]\<rparr>)
           | Succeeds \<Rightarrow>
               (let written = content s out_fp @ queue;
                    s1 = s\<lparr>files := dict_set out_fp written (files s),
                           data := dict_set out_fname [] (data s)\<rparr>
                in if end
                   then Inr (s1\<lparr>files := dict_set (final_name out_fname) written
                                             (dict_del out_fp (files s1))\<rparr>)
                   else Inr s1)))"

text \<open>
  \<open>Buffer.add\<close>, in its three steps: the first touch of a destination (lines 120-126),
  the append (line 128), and the size check that may flush (lines 130-131).
  \<open>getsizeof\<close> is Python's \<open>sys.getsizeof\<close> on the queue, a parameter of the model.
\<close>

definition first_touch :: "fname \<Rightarrow> state \<Rightarrow> error + state" where
  "first_touch out_fname s =
     (if map_of (data s) out_fname = None then
        (let s0 = s\<lparr>data := dict_set out_fname [] (data s)\<rparr> in
         if out_fname \<in> fps s0 then
           (case file_at s0 out_fname of
              None \<Rightarrow> Inl FileNotFoundError
            | Some _ \<Rightarrow>
                Inr (s0\<lparr>files := dict_del out_fname (files s0),
                       fps := fps s0 - {out_fname}\<rparr>))
         else Inr s0)
      else Inr s)"

definition queue :: "state \<Rightarrow> fname \<Rightarrow> row list" where
  "queue s out_fname = (case map_of (data s) out_fname of None \<Rightarrow> [] | Some q \<Rightarrow> q)"

definition enqueue :: "row \<Rightarrow> fname \<Rightarrow> state \<Rightarrow> error + state" where
  "enqueue elt out_fname s =
     (case first_touch out_fname s of
        Inl e \<Rightarrow> Inl e
      | Inr s1 \<Rightarrow> Inr (s1\<lparr>data := dict_set out_fname (queue s1 out_fname @ [elt]) (data s1)\<rparr>))"

definition add :: "(row list \<Rightarrow> int) \<Rightarrow> io \<Rightarrow> row \<Rightarrow> fname \<Rightarrow> state \<Rightarrow> error + state" where
  "add getsizeof outcome elt out_fname s =
     (case enqueue elt out_fname s of
        Inl e \<Rightarrow> Inl e
      | Inr s2 \<Rightarrow>
          if getsizeof (queue s2 out_fname) > max_size s2
          then save outcome out_fname False s2
          else Inr s2)"

text \<open>\<open>Buffer.clear\<close>: one final flush per key, in dict order, then \<open>_data.clear()\<close>.\<close>

fun save_all :: "(fname \<Rightarrow> io) \<Rightarrow> fname list \<Rightarrow> state \<Rightarrow> error + state" where
  "save_all env [] s = Inr s"
| "save_all env (k # ks) s =
     (case save (env k) k True s of Inl e \<Rightarrow> Inl e | Inr s' \<Rightarrow> save_all env ks s')"

definition clear :: "(fname \<Rightarrow> io) \<Rightarrow> state \<Rightarrow> error + state" where
  "clear env s =
     (case save_all env (map fst (data s)) s of
        Inl e \<Rightarrow> Inl e
      | Inr s' \<Rightarrow> Inr (s'\<lparr>data := []\<rparr>))"

text \<open>A run of \<open>add\<close> calls, each with the outcome of the flush it may trigger.\<close>

fun add_all :: "(row list \<Rightarrow> int) \<Rightarrow> (row \<times> fname \<times> io) list \<Rightarrow> state \<Rightarrow> error + state" where
  "add_all getsizeof [] s = Inr s"
| "add_all getsizeof ((elt, out_fname, outcome) # rest) s =
     (case add getsizeof outcome elt out_fname s of
        Inl e \<Rightarrow> Inl e
      | Inr s' \<Rightarrow> add_all getsizeof rest s')"

definition to_dest :: "fname \<Rightarrow> row list \<Rightarrow> (row \<times> fname \<times> io) list" where
  "to_dest out_fname elts = map (\<lambda>elt. (elt, out_fname, Succeeds)) elts"

text \<open>
  A whole run: the \<open>add\<close> calls, then \<open>clear\<close>; and the file a run leaves under a
  name (\<open>None\<close> when the run raised or the file is not there).
\<close>

definition add_then_clear ::
  "(row list \<Rightarrow> int) \<Rightarrow> (fname \<Rightarrow> io) \<Rightarrow> (row \<times> fname \<times> io) list \<Rightarrow> state
     \<Rightarrow> error + state" where
  "add_then_clear getsizeof env ops s =
     (case add_all getsizeof ops s of
        Inl e \<Rightarrow> Inl e
      | Inr s' \<Rightarrow> clear env s')"






definition clear_twice :: "(fname \<Rightarrow> io) \<Rightarrow> (fname \<Rightarrow> io) \<Rightarrow> state \<Rightarrow> error + state" where
  "clear_twice env env' s =
     (case clear env s of
        Inl e \<Rightarrow> Inl e
      | Inr s' \<Rightarrow> clear env' s')"


definition all_succeed :: "fname \<Rightarrow> io" where
  "all_succeed fp = Succeeds"

definition all_fail :: "fname \<Rightarrow> io" where
  "all_fail fp = Open_fails"

text \<open>
  \<open>sys.getsizeof\<close> on a list that was built by appending to an empty list, as the
  queues of the buffer are, under 64-bit CPython 3.9 or later: a header of 56 bytes
  and 8 bytes for every allocated slot, where an append that finds the list full
  makes \<open>list_resize\<close> allocate \<open>(newsize + (newsize >> 3) + 6) & ~3\<close> slots, and
  \<open>list.clear()\<close> leaves none. Used for the concrete runs below.
\<close>

fun allocated :: "nat \<Rightarrow> nat" where
  "allocated 0 = 0"
| "allocated (Suc n) =
     (if Suc n \<le> allocated n then allocated n
      else ((Suc n + Suc n div 8 + 6) div 4) * 4)"

definition cpython_getsizeof :: "row list \<Rightarrow> int" where
  "cpython_getsizeof q = 56 + 8 * int (allocated (length q))"

section \<open>The splitter\<close>

text \<open>
  \<open>get_mapped_fields(row, columns, index, int_key)\<close>. A key of the lookup index is a
  string or, with \<open>int_key\<close>, an integer; \<open>index.get\<close> gives \<open>None\<close> for a key that is
  not there. \<open>if index:\<close> is truthiness, so an empty dict means no lookup. Python's
  \<open>int(val)\<close> is the parameter \<open>py_int\<close> (\<open>None\<close> where it raises ValueError).
\<close>

datatype key = K_str string | K_int int

definition resolve ::
  "(string \<Rightarrow> int option) \<Rightarrow> (key \<times> string) list option \<Rightarrow> bool \<Rightarrow> string
     \<Rightarrow> error + string option" where
  "resolve py_int index int_key val =
     (case index of
        None \<Rightarrow> Inr (Some val)
      | Some ix \<Rightarrow>
          if ix = [] then Inr (Some val)
          else if int_key then
            (case py_int val of
               None \<Rightarrow> Inl ValueError
             | Some n \<Rightarrow> Inr (map_of ix (K_int n)))
          else Inr (map_of ix (K_str val)))"

fun get_mapped_fields ::
  "(string \<Rightarrow> int option) \<Rightarrow> row \<Rightarrow> int list \<Rightarrow> (key \<times> string) list option \<Rightarrow> bool
     \<Rightarrow> error + string option list \<times> (level \<times> message) list" where
  "get_mapped_fields py_int row [] index int_key = Inr ([], [])"
| "get_mapped_fields py_int row (col # columns) index int_key =
     (if int (length row) > col then
        (case py_getitem row col of
           Inl e \<Rightarrow> Inl e
         | Inr val \<Rightarrow>
             (case resolve py_int index int_key val of
                Inl e \<Rightarrow> Inl e
              | Inr v \<Rightarrow>
                  (case get_mapped_fields py_int row columns index int_key of
                     Inl e \<Rightarrow> Inl e
                   | Inr (vs, lg) \<Rightarrow> Inr (v # vs, lg))))
      else
        (case get_mapped_fields py_int row columns index int_key of
           Inl e \<Rightarrow> Inl e
         | Inr (vs, lg) \<Rightarrow> Inr (Some [] # vs, (DEBUG, No_column row col) # lg)))"

text \<open>\<open>all(mapped_fields)\<close>: \<open>None\<close> and the empty string are falsy.\<close>

definition all_truthy :: "string option list \<Rightarrow> bool" where
  "all_truthy mapped_fields = list_all (\<lambda>v. v \<noteq> None \<and> v \<noteq> Some []) mapped_fields"

text \<open>\<open>DataFile._get_out_filename\<close>; \<open>"-".join\<close> raises TypeError on a \<open>None\<close>.\<close>

definition get_out_filename :: "datafile \<Rightarrow> string option list \<Rightarrow> error + fname" where
  "get_out_filename self mapped_fields =
     (if None \<in> set mapped_fields then Inl TypeError
      else Inr (join (CHR ''-'') (map the mapped_fields) @ ''_'' @ stem self @ ''.''
                @ (if dm self = CHR 0x09 then ''tsv'' else ''csv'')))"

text \<open>
  \<open>DataFile.split(columns, index, int_key)\<close>. The buffer is built on the directory of
  the source file with the default \<open>max_size\<close>. The loop body starts with the call
  \<open>get_mapped_fields(row)\<close>: the function has four required positional parameters and
  the call passes one, so Python raises TypeError at the first row the reader yields,
  before anything is added to the buffer; \<open>columns\<close>, \<open>index\<close> and \<open>int_key\<close> are never
  used. An exception that ends the reader leaves \<open>split\<close> as it is; only a reader that
  ends without a row reaches \<open>buffer.clear()\<close>. The progress bar is not modelled.
\<close>

fun split_loop :: "row event list \<Rightarrow> error option \<Rightarrow> state \<Rightarrow> error + state" where
  "split_loop [] r s = (case r of Some e \<Rightarrow> Inl e | None \<Rightarrow> Inr s)"
| "split_loop (Logs l m # es) r s = split_loop es r (s\<lparr>logs := logs s @ [(l, m)]\<rparr>)"
| "split_loop (Yield row # es) r s = Inl TypeError"

definition split ::
  "(fname \<Rightarrow> io) \<Rightarrow> datafile \<Rightarrow> string list option \<Rightarrow> int list \<Rightarrow> (key \<times> string) list option
     \<Rightarrow> bool \<Rightarrow> (fname \<times> row list) list \<Rightarrow> (level \<times> message) list \<Rightarrow> error + state" where
  "split env self source columns index int_key dir lg =
     (let buffer = Buffer_init dir (lg @ [(INFO, Splitting (path self))]) (dm self) 10000;
          g = DataFile_iter self source
      in case split_loop (events g) (raised g) buffer of
           Inl e \<Rightarrow> Inl e
         | Inr s \<Rightarrow> clear env s)"

section \<open>Splitting and joining\<close>













lemma regroup_zero: "regroup (Some 0) row nb_cols d = Inr row"
  by (simp add: regroup_def)

lemma regroup_nonzero:
  "text_col \<noteq> 0 \<Longrightarrow> regroup (Some text_col) row nb_cols d = unsplit_field row nb_cols d text_col"
  by (simp add: regroup_def)








section \<open>The reader's claims\<close>

text \<open>
  Claim C4. With the tab as delimiter and text column 1, the four physical lines
  \<open>1<TAB>hello\<close>, \<open>world\<close>, the blank line and \<open>2<TAB>bye\<close> set \<open>nb_cols\<close> to 2 from
  the first line (it parses to two fields) and make the reader yield exactly the
  records \<open>["1", "hello world "]\<close> and then, at the end of input, \<open>["2", "bye"]\<close>, and
  end normally.
\<close>

theorem multiline_reconstruction_example:
  "parse_row (CHR 0x09) (''1'' @ [CHR 0x09] @ ''hello'') = Inr [''1'', ''hello'']
   \<and> length [''1'', ''hello''] = 2
   \<and> custom_reader
        [''1'' @ [CHR 0x09] @ ''hello'', ''world'', [], ''2'' @ [CHR 0x09] @ ''bye'']
        (CHR 0x09) (Some 1)
      = Gen [Yield [''1'', ''hello world ''], Yield [''2'', ''bye'']] None"
  by (simp add: custom_reader_def parse_row_def is_newline_def field_size_limit_def
      regroup_def unsplit_field_def append_last_def emit_def)




text \<open>
  Claim C6 (amended). When the source file does not exist, \<open>DataFile.__iter__\<close>
  yields no row and raises \<open>NoDataFile\<close> before any row. \<open>Links.__iter__\<close> and
  \<open>UserLanguages.__iter__\<close> catch it, log one warning and end normally with no item;
  \<open>DataFile.split\<close> iterates the reader without a handler, so there \<open>NoDataFile\<close>
  leaves \<open>split\<close>.
\<close>

theorem missing_source_file:
  "events (DataFile_iter self None) = [Logs DEBUG (Datafile_not_found (path self))]
   \<and> yielded (DataFile_iter self None) = []
   \<and> raised (DataFile_iter self None) = Some NoDataFile
   \<and> yielded (Links_iter src_lg tgt_lg None) = []
   \<and> raised (Links_iter src_lg tgt_lg None) = None
   \<and> logged (Links_iter src_lg tgt_lg None)
       = [(DEBUG, Datafile_not_found (Links_filename src_lg tgt_lg)),
          (WARNING, No_data_links src_lg tgt_lg)]
   \<and> yielded (UserLanguages_iter lg None) = []
   \<and> raised (UserLanguages_iter lg None) = None
   \<and> logged (UserLanguages_iter lg None)
       = [(DEBUG, Datafile_not_found (lg @ ''_user_languages.tsv'')),
          (WARNING, No_data_user_languages)]
   \<and> split env self None columns index int_key dir lg' = Inl NoDataFile"
  by (simp add: DataFile_iter_def Links_iter_def UserLanguages_iter_def yielded_def
      logged_def emit_def split_def)

text \<open>
  The claim as stated fails for the caller \<open>DataFile.split\<close>: on a missing source it
  logs no warning and does not proceed, it raises \<open>NoDataFile\<close>.
\<close>

theorem split_missing_source_raises:
  "split all_succeed \<lparr>path = ''links.csv'', stem = ''links'', dm = CHR 0x09, tc = Some (- 1)\<rparr>
     None [0] None False [] [] = Inl NoDataFile"
  by (simp add: DataFile_iter_def split_def)

text \<open>
  Claim C10. For a source file that exists and has no lines, the reader does not end
  normally with zero records: \<open>next(reader)\<close> fails inside the generator and the
  iteration raises (RuntimeError), through \<open>DataFile.__iter__\<close> and, uncaught, through
  \<open>Links.__iter__\<close>.
\<close>

theorem empty_source_file_raises:
  "custom_reader [] delimiter text_col = Gen [] (Some RuntimeError)
   \<and> raised (DataFile_iter self (Some [])) = Some RuntimeError
   \<and> DataFile_iter self (Some []) \<noteq> Gen [] None
   \<and> raised (Links_iter src_lg tgt_lg (Some [])) = Some RuntimeError"
  by (simp add: custom_reader_def DataFile_iter_def Links_iter_def)

section \<open>The buffer: what \<open>add\<close> and \<open>clear\<close> keep\<close>





lemma map_fst_dict_set: "k \<in> fst ` set ps \<Longrightarrow> map fst (dict_set k v ps) = map fst ps"
  by (induction ps) auto































lemma save_keys:
  assumes "k \<in> fst ` set (data s)"
  shows "\<exists>s'. save outcome k end s = Inr s' \<and> map fst (data s') = map fst (data s)"
proof -
  obtain q where "map_of (data s) k = Some q"
    using assms by (metis map_of_eq_None_iff not_Some_eq)
  then show ?thesis using assms
    by (cases outcome) (simp_all add: save_def Let_def map_fst_dict_set)
qed

lemma save_all_total:
  "set ks \<subseteq> fst ` set (data s) \<Longrightarrow> \<exists>s'. save_all env ks s = Inr s'"
proof (induction ks arbitrary: s)
  case Nil
  show ?case by simp
next
  case (Cons k ks)
  then have "k \<in> fst ` set (data s)" by simp
  from save_keys[OF this, of "env k" True] obtain s1 where
    s1: "save (env k) k True s = Inr s1" "map fst (data s1) = map fst (data s)" by blast
  have "fst ` set (data s1) = fst ` set (data s)"
    using s1(2) by (metis set_map)
  with Cons.prems have "set ks \<subseteq> fst ` set (data s1)" by simp
  from Cons.IH[OF this] s1(1) show ?case by simp
qed

lemma clear_total: "\<exists>s'. clear env s = Inr s' \<and> data s' = []"
proof -
  have "set (map fst (data s)) \<subseteq> fst ` set (data s)" by simp
  from save_all_total[OF this] obtain s1 where "save_all env (map fst (data s)) s = Inr s1"
    by blast
  then show ?thesis by (simp add: clear_def)
qed

lemma clear_empty: "data s = [] \<Longrightarrow> clear env s = Inr s"
  by (simp add: clear_def)

lemma save_failure_keeps_queue:
  assumes "outcome \<noteq> Succeeds" "save outcome f end s = Inr s'"
  shows "data s' = data s \<and> logs s' = logs s @ [(DEBUG, Error_opening (part_name f))]"
  using assms by (cases outcome) (auto simp: save_def Let_def split: option.splits)

lemma split_loop_TypeError: "yielded_of es \<noteq> [] \<Longrightarrow> split_loop es r s = Inl TypeError"
  by (induction es r s rule: split_loop.induct) auto

lemma split_TypeError:
  "yielded (DataFile_iter self source) \<noteq> []
     \<Longrightarrow> split env self source columns index int_key dir lg = Inl TypeError"
  by (simp add: split_def Let_def yielded_def split_loop_TypeError)







section \<open>The buffer's claims\<close>

text \<open>
  Claim C1. A flush that fails inside \<open>_save\<close> is logged and leaves the queue as it
  was (\<open>save_failure_keeps_queue\<close>), but \<open>clear\<close> empties \<open>_data\<close> after its flushes
  whatever their outcome (\<open>clear_total\<close>). Here one record is added, the flush of
  \<open>clear\<close> cannot open the in-progress file, and afterwards the record is neither in
  the buffer nor in any file: it is lost.
\<close>

theorem failed_final_flush_loses_records:
  "add_then_clear cpython_getsizeof all_fail (to_dest ''en-fr_links.tsv'' [[''1'', ''2'']])
     (Buffer_init [] [] (CHR 0x09) 10000)
   = Inr \<lparr>fps = {}, delim = CHR 0x09, max_size = 10000, data = [], files = [],
          logs = [(DEBUG, Error_opening ''en-fr_links.tsv.part'')]\<rparr>"
  by (simp add: add_then_clear_def to_dest_def add_def enqueue_def first_touch_def queue_def
      Buffer_init_def cpython_getsizeof_def clear_def save_def Let_def all_fail_def
      part_name_def)







text \<open>
  Claim C8. \<open>clear\<close> always returns, with \<open>_data\<close> empty; a second \<open>clear\<close> right after
  it returns the very same state (no write, no rename, no change of a queue, not even
  a log record), whatever the file system would do; so calling it twice leaves what
  calling it once leaves.
\<close>

theorem finalize_twice:
  "\<exists>s'. clear env s = Inr s' \<and> data s' = [] \<and> clear env' s' = Inr s'
        \<and> clear_twice env env' s = clear env s"
proof -
  obtain s' where s': "clear env s = Inr s'" "data s' = []" using clear_total by blast
  then have "clear env' s' = Inr s'" by (simp add: clear_empty)
  with s' show ?thesis by (simp add: clear_twice_def)
qed



section \<open>The splitter's claim\<close>

text \<open>
  Claim C2. \<open>split\<close> never routes a record: the first record the reader yields makes
  the call \<open>get_mapped_fields(row)\<close> raise TypeError (\<open>split_TypeError\<close>). Here the
  source has the one line \<open>1<TAB>2\<close> and column 0 is asked for; the claim would route
  the record to \<open>1_links.tsv\<close>, the code raises.
\<close>

theorem split_raises_TypeError:
  "split all_succeed \<lparr>path = ''links.csv'', stem = ''links'', dm = CHR 0x09, tc = Some (- 1)\<rparr>
     (Some [''1'' @ [CHR 0x09] @ ''2'']) [0] None False [] [] = Inl TypeError"
  by (simp add: split_def DataFile_iter_def custom_reader_def parse_row_def is_newline_def
      field_size_limit_def regroup_def unsplit_field_def)

end
